theory Spec2Isabelle
  imports Main
begin

section \<open>Python values, configuration and errors\<close>

text \<open>
  The decoder of \<^verbatim>\<open>model/decoder.py\<close> is a graph-construction routine: calling it
  builds symbolic tensors and component objects, and its failures are the exceptions
  raised while the graph is being built.
\<close>

datatype pyval = PyNone | PyInt int | PyStr string | PyBool bool

text \<open>What a Python name can be bound to: a module, a class, a function or a plain value.\<close>

datatype pyobj = PyModule string | PyClass string | PyFunction string | PyData pyval

datatype error =
    KeyError string
  | NameError string
  | UnboundLocalError string
  | ValueError string

text \<open>\<^verbatim>\<open>d[k]\<close> raises KeyError on a missing key, \<^verbatim>\<open>d.get(k)\<close> returns None.\<close>

definition dict_item :: "(string \<rightharpoonup> pyval) \<Rightarrow> string \<Rightarrow> error + pyval" where
  "dict_item d k = (case d k of None \<Rightarrow> Inl (KeyError k) | Some v \<Rightarrow> Inr v)"

definition dict_get :: "(string \<rightharpoonup> pyval) \<Rightarrow> string \<Rightarrow> pyval" where
  "dict_get d k = (case d k of None \<Rightarrow> PyNone | Some v \<Rightarrow> v)"

text \<open>
  The configuration object. The two diversity settings are floating-point numbers that
  the decoder only passes on, so their type is left as a parameter.
\<close>

record 'f config =
  decoding :: string
  beam_size :: int
  div_gamma :: 'f
  div_prob :: 'f
  max_length_formula :: int
  beam_search_optimization :: bool
  attn_cell_config :: "string \<rightharpoonup> pyval"

section \<open>Symbolic tensors\<close>

text \<open>A Python slice \<^verbatim>\<open>start:stop\<close>; \<^verbatim>\<open>:\<close> is \<open>Sl None None\<close>.\<close>

datatype slice = Sl "int option" "int option"

datatype initializer = EmbeddingInitializer

datatype tensor =
    Placeholder string
  | Variable string "pyval list" initializer
  | Constant pyval
  | Shape0 tensor
  | EmbeddingLookup tensor tensor
  | Reshape tensor "tensor list"
  | Tile tensor "tensor list"
  | Concat "tensor list" int
  | Slice tensor "slice list"

definition embedding_initializer :: initializer where
  "embedding_initializer = EmbeddingInitializer"

text \<open>
  \<^verbatim>\<open>tf.get_variable\<close> with an initializer function, asked in a fresh graph for a new
  variable: the shape has to be fully defined, every dimension a non-negative integer
  (a Python bool counts as the integer it is); otherwise it raises ValueError. So a
  dimension that is None, as \<^verbatim>\<open>d.get(k)\<close> gives for a missing key, is refused, and so
  is a negative one. A string is refused as well: unless it spells an integer
  \<^verbatim>\<open>tf.get_variable\<close> rejects it, and one that does is rejected a few lines later as an
  entry of the shape that \<^verbatim>\<open>get_embeddings\<close> hands to \<^verbatim>\<open>tf.reshape\<close>; the error is
  reported here in both cases.
\<close>

fun valid_dimension :: "pyval \<Rightarrow> bool" where
  "valid_dimension PyNone = False"
| "valid_dimension (PyInt n) = (0 \<le> n)"
| "valid_dimension (PyStr s) = False"
| "valid_dimension (PyBool b) = True"

definition get_variable :: "string \<Rightarrow> initializer \<Rightarrow> pyval list \<Rightarrow> error + tensor" where
  "get_variable name init shape =
     (if list_all valid_dimension shape then Inr (Variable name shape init)
      else Inl (ValueError name))"

text \<open>
  \<^verbatim>\<open>get_embeddings(formula, E, dim, start_token, batch_size)\<close>: the embedded formula
  with the start token put in front of every row.
\<close>

definition get_embeddings :: "tensor \<Rightarrow> tensor \<Rightarrow> pyval \<Rightarrow> tensor \<Rightarrow> tensor \<Rightarrow> tensor" where
  "get_embeddings formula E dim start_token batch_size =
     (let formula' = EmbeddingLookup E formula;
          start_token' = Reshape start_token [Constant (PyInt 1), Constant (PyInt 1), Constant dim];
          start_tokens = Tile start_token' [batch_size, Constant (PyInt 1), Constant (PyInt 1)];
          embeddings = Concat [start_tokens,
                         Slice formula' [Sl None None, Sl None None, Sl None None]] 1
      in embeddings)"

section \<open>Components\<close>

text \<open>
  The components live in the package \<^verbatim>\<open>components\<close>; the decoder only constructs
  them, and constructing one is taken to succeed. Each object is recorded with the
  arguments it was constructed from. A keyword argument that the call leaves out is
  \<open>None\<close>. An attention cell is also recorded with the variable scope that was open
  around its construction. \<^verbatim>\<open>GRUCell\<close> is imported next to \<^verbatim>\<open>LSTMCell\<close>.
\<close>

record var_scope =
  scope_name :: string
  scope_reuse :: bool

record attention_mechanism =
  am_img :: tensor
  am_dim_e :: pyval
  am_tiles :: "int option"

datatype recurrent_cell =
    LSTMCell pyval "bool option"
  | GRUCell pyval "bool option"

record attention_cell =
  ac_scope :: var_scope
  ac_recu_cell :: recurrent_cell
  ac_attn_meca :: attention_mechanism
  ac_dropout :: tensor
  ac_config :: "string \<rightharpoonup> pyval"
  ac_n_tok :: int

datatype 'f decoder_cell =
    GreedyDecoderCell tensor attention_cell tensor tensor pyobj
  | BeamSearchDecoderCell tensor attention_cell tensor tensor pyobj int 'f 'f

datatype loss_fn = bso_cross_entropy

datatype 'f bso_cell = BSOCell "'f decoder_cell" loss_fn

datatype bso_inputs = get_inputs tensor tensor

text \<open>
  The three unroll drivers, each with the arguments of its call. The initial state
  handed to a driver is always the one its own cell provides.
\<close>

datatype 'f unroll =
    TfDynamicRnn attention_cell tensor
  | DynamicRnn "'f bso_cell" bso_inputs
  | DynamicDecode "'f decoder_cell" int

section \<open>The decoder\<close>

record 'f decoder =
  d_config :: "'f config"
  d_n_tok :: int
  d_id_end :: int
  d_tiles :: int

definition Decoder_init :: "'f config \<Rightarrow> int \<Rightarrow> int \<Rightarrow> 'f decoder" where
  "Decoder_init config n_tok id_end =
     \<lparr> d_config = config, d_n_tok = n_tok, d_id_end = id_end,
       d_tiles = (if decoding config = ''greedy'' then 1 else beam_size config) \<rparr>"

text \<open>
  Name resolution inside \<^verbatim>\<open>__call__\<close>. A name that the body never assigns is not a
  local: it is looked up among the module's globals (the imports and definitions of
  \<^verbatim>\<open>decoder.py\<close>), then among the builtins, none of which is called \<^verbatim>\<open>id_end\<close>, and
  raises NameError when it is not found. A local that no assignment has reached
  is modelled by \<open>None\<close>; reading it raises UnboundLocalError.
\<close>

definition module_globals :: "(string \<times> pyobj) list" where
  "module_globals =
     [(''np'', PyModule ''numpy''), (''tf'', PyModule ''tensorflow''),
      (''nest'', PyModule ''tensorflow.python.util.nest''),
      (''layers'', PyModule ''tensorflow.contrib.layers''),
      (''GRUCell'', PyClass ''GRUCell''), (''LSTMCell'', PyClass ''LSTMCell''),
      (''dynamic_decode'', PyFunction ''dynamic_decode''),
      (''AttentionMechanism'', PyClass ''AttentionMechanism''),
      (''AttentionCell'', PyClass ''AttentionCell''),
      (''GreedyDecoderCell'', PyClass ''GreedyDecoderCell''),
      (''BeamSearchDecoderCell'', PyClass ''BeamSearchDecoderCell''),
      (''BSOCell'', PyClass ''BSOCell''), (''get_inputs'', PyFunction ''get_inputs''),
      (''bso_cross_entropy'', PyFunction ''bso_cross_entropy''),
      (''dynamic_rnn'', PyFunction ''dynamic_rnn''), (''Decoder'', PyClass ''Decoder''),
      (''get_embeddings'', PyFunction ''get_embeddings''),
      (''embedding_initializer'', PyFunction ''embedding_initializer'')]"

definition load_global :: "string \<Rightarrow> error + pyobj" where
  "load_global n =
     (case map_of module_globals n of None \<Rightarrow> Inl (NameError n) | Some v \<Rightarrow> Inr v)"

definition load_local :: "string \<Rightarrow> 'a option \<Rightarrow> error + 'a" where
  "load_local n v = (case v of None \<Rightarrow> Inl (UnboundLocalError n) | Some x \<Rightarrow> Inr x)"

text \<open>
  The training block, under \<^verbatim>\<open>variable_scope("attn_cell", reuse=False)\<close>: the
  attention cell and the teacher-forced unroll over all embeddings but the last.
\<close>

definition train_cell :: "'f decoder \<Rightarrow> tensor \<Rightarrow> tensor \<Rightarrow> error + attention_cell" where
  "train_cell self img dropout =
     (case dict_item (attn_cell_config (d_config self)) ''dim_e'' of
        Inl e \<Rightarrow> Inl e
      | Inr dim_e \<Rightarrow>
          let attn_meca = \<lparr> am_img = img, am_dim_e = dim_e, am_tiles = None \<rparr> in
          (case dict_item (attn_cell_config (d_config self)) ''num_units'' of
             Inl e \<Rightarrow> Inl e
           | Inr num_units \<Rightarrow>
               let recu_cell = LSTMCell num_units None in
               Inr \<lparr> ac_scope = \<lparr> scope_name = ''attn_cell'', scope_reuse = False \<rparr>,
                     ac_recu_cell = recu_cell, ac_attn_meca = attn_meca,
                     ac_dropout = dropout,
                     ac_config = attn_cell_config (d_config self),
                     ac_n_tok = d_n_tok self \<rparr>))"

definition train_inputs :: "tensor \<Rightarrow> tensor" where
  "train_inputs embeddings =
     Slice embeddings [Sl None None, Sl None (Some (- 1)), Sl None None]"

text \<open>
  The decoding block, under \<^verbatim>\<open>variable_scope("attn_cell", reuse=True)\<close>: first the
  attention cell of the decoding graph.
\<close>

definition decode_cell :: "'f decoder \<Rightarrow> tensor \<Rightarrow> tensor \<Rightarrow> error + attention_cell" where
  "decode_cell self img dropout =
     (case dict_item (attn_cell_config (d_config self)) ''dim_e'' of
        Inl e \<Rightarrow> Inl e
      | Inr dim_e \<Rightarrow>
          let attn_meca = \<lparr> am_img = img, am_dim_e = dim_e, am_tiles = Some (d_tiles self) \<rparr> in
          (case dict_item (attn_cell_config (d_config self)) ''num_units'' of
             Inl e \<Rightarrow> Inl e
           | Inr num_units \<Rightarrow>
               let recu_cell = LSTMCell num_units (Some True) in
               Inr \<lparr> ac_scope = \<lparr> scope_name = ''attn_cell'', scope_reuse = True \<rparr>,
                     ac_recu_cell = recu_cell, ac_attn_meca = attn_meca,
                     ac_dropout = dropout,
                     ac_config = attn_cell_config (d_config self),
                     ac_n_tok = d_n_tok self \<rparr>))"

text \<open>
  Then the branch on the decoding mode. The greedy branch reads the bare name
  \<^verbatim>\<open>id_end\<close>; the beam-search branch reads \<^verbatim>\<open>self._id_end\<close>. Any other mode leaves
  the local \<^verbatim>\<open>decoder_cell\<close> without a value.
\<close>

definition select_decoder_cell ::
  "'f decoder \<Rightarrow> tensor \<Rightarrow> tensor \<Rightarrow> tensor \<Rightarrow> tensor \<Rightarrow> tensor \<Rightarrow> attention_cell \<Rightarrow>
   (string \<rightharpoonup> 'f unroll) \<Rightarrow> error + ('f decoder_cell option \<times> (string \<rightharpoonup> 'f unroll))" where
  "select_decoder_cell self formula E start_token batch_size embeddings attn_cell decoder_output =
     (if decoding (d_config self) = ''greedy'' then
        (case load_global ''id_end'' of
           Inl e \<Rightarrow> Inl e
         | Inr id_end \<Rightarrow>
             Inr (Some (GreedyDecoderCell E attn_cell batch_size start_token id_end),
                  decoder_output))
      else if decoding (d_config self) = ''beam_search'' then
        (let decoder_cell = BeamSearchDecoderCell E attn_cell batch_size start_token
                              (PyData (PyInt (d_id_end self))) (beam_size (d_config self))
                              (div_gamma (d_config self)) (div_prob (d_config self))
         in
         if beam_search_optimization (d_config self) then
           (let bso_cell = BSOCell decoder_cell bso_cross_entropy;
                bso_inputs = get_inputs formula
                  (Slice embeddings [Sl None None, Sl (Some 1) None, Sl None None]);
                bso_outputs = DynamicRnn bso_cell bso_inputs
            in Inr (Some decoder_cell, decoder_output(''bso'' \<mapsto> bso_outputs)))
         else Inr (Some decoder_cell, decoder_output))
      else Inr (None, decoder_output))"

text \<open>
  The adaptive unroll after the branch: \<^verbatim>\<open>dynamic_decode(decoder_cell,
  max_length_formula+1)\<close>, stored under \<^verbatim>\<open>"pred"\<close>.
\<close>

definition decode_unroll ::
  "'f decoder \<Rightarrow> 'f decoder_cell option \<Rightarrow> (string \<rightharpoonup> 'f unroll) \<Rightarrow>
   error + (string \<rightharpoonup> 'f unroll)" where
  "decode_unroll self decoder_cell decoder_output =
     (case load_local ''decoder_cell'' decoder_cell of
        Inl e \<Rightarrow> Inl e
      | Inr cell \<Rightarrow>
          let test_outputs = DynamicDecode cell (max_length_formula (d_config self) + 1)
          in Inr (decoder_output(''pred'' \<mapsto> test_outputs)))"

text \<open>
  What a call has built by the time it returns or raises: the attention cell of the
  training block, the attention cell of the decoding block, the decoder cell, and the
  entries that \<^verbatim>\<open>decoder_output\<close> holds.
\<close>

record 'f built =
  built_train_cell :: "attention_cell option"
  built_decode_cell :: "attention_cell option"
  built_decoder_cell :: "'f decoder_cell option"
  built_output :: "string \<rightharpoonup> 'f unroll"

definition nothing_built :: "'f built" where
  "nothing_built = \<lparr> built_train_cell = None, built_decode_cell = None,
                      built_decoder_cell = None, built_output = Map.empty \<rparr>"

text \<open>
  The body of \<^verbatim>\<open>__call__\<close>, statement by statement: the exception that ended it, if
  any, and what had been built by then.
\<close>

definition Decoder_run ::
  "'f decoder \<Rightarrow> tensor \<Rightarrow> tensor \<Rightarrow> tensor \<Rightarrow> tensor \<Rightarrow> error option \<times> 'f built" where
  "Decoder_run self training img formula dropout =
     (let dim_embeddings = dict_get (attn_cell_config (d_config self)) ''dim_embeddings''
      in
      case get_variable ''E'' embedding_initializer [PyInt (d_n_tok self), dim_embeddings] of
        Inl e \<Rightarrow> (Some e, nothing_built)
      | Inr E \<Rightarrow>
      (case get_variable ''start_token'' embedding_initializer [dim_embeddings] of
        Inl e \<Rightarrow> (Some e, nothing_built)
      | Inr start_token \<Rightarrow>
      (let batch_size = Shape0 img;
           embeddings = get_embeddings formula E dim_embeddings start_token batch_size
       in
       case train_cell self img dropout of
         Inl e \<Rightarrow> (Some e, nothing_built)
       | Inr attn_cell \<Rightarrow>
       (let train_outputs = TfDynamicRnn attn_cell (train_inputs embeddings);
            built1 = nothing_built \<lparr> built_train_cell := Some attn_cell,
                                     built_output := [''train'' \<mapsto> train_outputs] \<rparr>
        in
        case decode_cell self img dropout of
          Inl e \<Rightarrow> (Some e, built1)
        | Inr attn_cell \<Rightarrow>
        (let built2 = built1 \<lparr> built_decode_cell := Some attn_cell \<rparr>
         in
         case select_decoder_cell self formula E start_token batch_size embeddings
                attn_cell (built_output built2) of
           Inl e \<Rightarrow> (Some e, built2)
         | Inr (decoder_cell, decoder_output) \<Rightarrow>
         (let built3 = built2 \<lparr> built_decoder_cell := decoder_cell,
                                built_output := decoder_output \<rparr>
          in
          case decode_unroll self decoder_cell decoder_output of
            Inl e \<Rightarrow> (Some e, built3)
          | Inr decoder_output \<Rightarrow>
              (None, built3 \<lparr> built_output := decoder_output \<rparr>)))))))"

text \<open>The result of the call: the exception, or the \<^verbatim>\<open>decoder_output\<close> it returns.\<close>

definition Decoder_call ::
  "'f decoder \<Rightarrow> tensor \<Rightarrow> tensor \<Rightarrow> tensor \<Rightarrow> tensor \<Rightarrow> error + (string \<rightharpoonup> 'f unroll)" where
  "Decoder_call self training img formula dropout =
     (case Decoder_run self training img formula dropout of
        (Some e, built) \<Rightarrow> Inl e
      | (None, built) \<Rightarrow> Inr (built_output built))"

section \<open>Running the graph\<close>

text \<open>
  What the tensors of the graph evaluate to once the placeholders are fed and the
  variables hold values. Floating-point entries are never computed with here, so their
  type is a parameter. \<open>None\<close> stands for an operation that has no result on its
  arguments.
\<close>

datatype 'a val = FloatV 'a | IntV int | Arr "'a val list"

fun un_arr :: "'a val \<Rightarrow> 'a val list option" where
  "un_arr (Arr xs) = Some xs"
| "un_arr v = None"

fun un_int :: "'a val \<Rightarrow> int option" where
  "un_int (IntV i) = Some i"
| "un_int v = None"

text \<open>\<^verbatim>\<open>tf.nn.embedding_lookup\<close>: every id is replaced by the row it selects.\<close>

fun embedding_lookup :: "'a val list \<Rightarrow> 'a val \<Rightarrow> 'a val option" where
  "embedding_lookup params (IntV i) =
     (if 0 \<le> i \<and> i < int (length params) then Some (params ! nat i) else None)"
| "embedding_lookup params (Arr ids) =
     map_option Arr (those (map (embedding_lookup params) ids))"
| "embedding_lookup params (FloatV x) = None"

text \<open>\<^verbatim>\<open>tf.reshape\<close> to a shape of non-negative sizes: same entries, regrouped.\<close>

fun flatten :: "'a val \<Rightarrow> 'a val list" where
  "flatten (Arr xs) = concat (map flatten xs)"
| "flatten v = [v]"

fun chunks :: "nat \<Rightarrow> nat \<Rightarrow> 'b list \<Rightarrow> 'b list list" where
  "chunks 0 n xs = []"
| "chunks (Suc k) n xs = take n xs # chunks k n (drop n xs)"

fun build :: "nat list \<Rightarrow> 'a val list \<Rightarrow> 'a val" where
  "build [] xs = hd xs"
| "build (d # ds) xs = Arr (map (build ds) (chunks d (prod_list ds) xs))"

definition reshape :: "'a val \<Rightarrow> int list \<Rightarrow> 'a val option" where
  "reshape v shape =
     (if list_all (\<lambda>d. 0 \<le> d) shape \<and> prod_list (map nat shape) = length (flatten v)
      then Some (build (map nat shape) (flatten v)) else None)"

text \<open>\<^verbatim>\<open>tf.tile\<close>: axis by axis, the entries repeated the given number of times.\<close>

fun tile :: "'a val \<Rightarrow> int list \<Rightarrow> 'a val option" where
  "tile v [] = Some v"
| "tile (Arr xs) (m # ms) =
     (if m < 0 then None
      else map_option (\<lambda>ys. Arr (concat (replicate (nat m) ys)))
             (those (map (\<lambda>x. tile x ms) xs)))"
| "tile v (m # ms) = None"

text \<open>
  \<^verbatim>\<open>tf.concat\<close> along an axis: on axis 0 the arrays are appended; on a deeper axis
  they must have as many entries as each other, and are joined entry by entry.
\<close>

fun zip_rows :: "'b list list \<Rightarrow> 'b list list option" where
  "zip_rows [] = None"
| "zip_rows [xs] = Some (map (\<lambda>x. [x]) xs)"
| "zip_rows (xs # xss) =
     (case zip_rows xss of
        None \<Rightarrow> None
      | Some rs \<Rightarrow> if length rs = length xs then Some (map2 (#) xs rs) else None)"

fun concat_axis :: "nat \<Rightarrow> 'a val list \<Rightarrow> 'a val option" where
  "concat_axis 0 vs = map_option (\<lambda>xss. Arr (concat xss)) (those (map un_arr vs))"
| "concat_axis (Suc n) vs =
     (case those (map un_arr vs) of
        None \<Rightarrow> None
      | Some xss \<Rightarrow>
          (case zip_rows xss of
             None \<Rightarrow> None
           | Some rows \<Rightarrow> map_option Arr (those (map (concat_axis n) rows))))"

text \<open>Python slicing with step 1: a negative bound counts from the end, and bounds are clipped.\<close>

definition py_index :: "nat \<Rightarrow> int \<Rightarrow> nat" where
  "py_index len i = nat (min (int len) (max 0 (if i < 0 then i + int len else i)))"

definition py_slice :: "slice \<Rightarrow> 'b list \<Rightarrow> 'b list" where
  "py_slice s xs =
     (case s of Sl start stop \<Rightarrow>
        let lo = (case start of None \<Rightarrow> 0 | Some i \<Rightarrow> py_index (length xs) i);
            hi = (case stop of None \<Rightarrow> length xs | Some i \<Rightarrow> py_index (length xs) i)
        in take (hi - lo) (drop lo xs))"

fun slice_val :: "slice list \<Rightarrow> 'a val \<Rightarrow> 'a val option" where
  "slice_val [] v = Some v"
| "slice_val (s # ss) (Arr xs) =
     map_option Arr (those (map (slice_val ss) (py_slice s xs)))"
| "slice_val (s # ss) v = None"

text \<open>
  The value of a tensor under a feed \<open>env\<close>, which gives every placeholder and every
  variable, by name, the value it holds during the run.
\<close>

fun run :: "(string \<rightharpoonup> 'a val) \<Rightarrow> tensor \<Rightarrow> 'a val option" where
  "run env (Placeholder n) = env n"
| "run env (Variable n shape init) = env n"
| "run env (Constant c) =
     (case c of
        PyInt i \<Rightarrow> Some (IntV i)
      | PyBool b \<Rightarrow> Some (IntV (if b then 1 else 0))
      | _ \<Rightarrow> None)"
| "run env (Shape0 t) =
     (case run env t of Some (Arr xs) \<Rightarrow> Some (IntV (int (length xs))) | _ \<Rightarrow> None)"
| "run env (EmbeddingLookup p ids) =
     (case run env p of
        Some (Arr params) \<Rightarrow>
          (case run env ids of Some v \<Rightarrow> embedding_lookup params v | None \<Rightarrow> None)
      | _ \<Rightarrow> None)"
| "run env (Reshape t shape) =
     (case run env t of
        None \<Rightarrow> None
      | Some v \<Rightarrow>
          (case those (map (\<lambda>d. Option.bind (run env d) un_int) shape) of
             None \<Rightarrow> None
           | Some ds \<Rightarrow> reshape v ds))"
| "run env (Tile t multiples) =
     (case run env t of
        None \<Rightarrow> None
      | Some v \<Rightarrow>
          (case those (map (\<lambda>d. Option.bind (run env d) un_int) multiples) of
             None \<Rightarrow> None
           | Some ms \<Rightarrow> tile v ms))"
| "run env (Concat ts axis) =
     (if axis < 0 then None
      else (case those (map (run env) ts) of
              None \<Rightarrow> None
            | Some vs \<Rightarrow> concat_axis (nat axis) vs))"
| "run env (Slice t ss) =
     (case run env t of None \<Rightarrow> None | Some v \<Rightarrow> slice_val ss v)"

section \<open>The unroll drivers\<close>

text \<open>
  \<^verbatim>\<open>tf.nn.dynamic_rnn\<close>, the driver of the training unroll: the cell is applied once
  to every time step of the input, in order, and the outputs are collected. The batch
  is data-parallel: sample \<open>b\<close> is unrolled by itself, from the initial state and with
  the step that the attention cell has for sample \<open>b\<close>. The step function of the
  attention cell is a parameter.
\<close>

fun rnn_unroll :: "('s \<Rightarrow> 'i \<Rightarrow> 'o \<times> 's) \<Rightarrow> 's \<Rightarrow> 'i list \<Rightarrow> 'o list" where
  "rnn_unroll step s [] = []"
| "rnn_unroll step s (x # xs) = (case step s x of (y, s') \<Rightarrow> y # rnn_unroll step s' xs)"

definition tf_dynamic_rnn ::
  "(nat \<Rightarrow> 's \<Rightarrow> 'a val \<Rightarrow> 'o \<times> 's) \<Rightarrow> (nat \<Rightarrow> 's) \<Rightarrow> 'a val \<Rightarrow> 'o list list option" where
  "tf_dynamic_rnn step initial_state inputs =
     (case inputs of
        Arr rows \<Rightarrow>
          map_option (\<lambda>xss. map (\<lambda>(b, xs). rnn_unroll (step b) (initial_state b) xs)
                               (zip [0 ..< length xss] xss))
            (those (map un_arr rows))
      | _ \<Rightarrow> None)"

fun run_train ::
  "(attention_cell \<Rightarrow> nat \<Rightarrow> 's \<Rightarrow> 'a val \<Rightarrow> 'o \<times> 's) \<Rightarrow> (attention_cell \<Rightarrow> nat \<Rightarrow> 's) \<Rightarrow>
   (string \<rightharpoonup> 'a val) \<Rightarrow> 'f unroll \<Rightarrow> 'o list list option" where
  "run_train cell_step cell_init env (TfDynamicRnn cell inputs) =
     Option.bind (run env inputs) (tf_dynamic_rnn (cell_step cell) (cell_init cell))"
| "run_train cell_step cell_init env (DynamicRnn cell inputs) = None"
| "run_train cell_step cell_init env (DynamicDecode cell n) = None"

text \<open>
  Modelled from the spec: \<^verbatim>\<open>components.dynamic_decode\<close> is not among the sources. The
  adaptive driver "applies the cell repeatedly until either every sample's done flag is
  set or a hard step cap is reached, accumulating per-step outputs". The state \<open>s\<close> is
  the state of the whole batch, \<open>finished s\<close> says that every sample is done, and the
  step function of the decoder cell is a parameter.
\<close>

function dynamic_decode_loop ::
  "('s \<Rightarrow> 'o \<times> 's) \<Rightarrow> ('s \<Rightarrow> bool) \<Rightarrow> int \<Rightarrow> int \<Rightarrow> 's \<Rightarrow> 'o list \<Rightarrow> 'o list \<times> 's" where
  "dynamic_decode_loop step finished maximum_iterations time s outputs =
     (if time < maximum_iterations \<and> \<not> finished s
      then dynamic_decode_loop step finished maximum_iterations (time + 1)
             (snd (step s)) (outputs @ [fst (step s)])
      else (outputs, s))"
  by pat_completeness auto
termination
  by (relation "measure (\<lambda>(step, finished, m, t, s, outputs). nat (m - t))") auto

declare dynamic_decode_loop.simps [simp del]

definition dynamic_decode ::
  "('s \<Rightarrow> 'o \<times> 's) \<Rightarrow> ('s \<Rightarrow> bool) \<Rightarrow> 's \<Rightarrow> int \<Rightarrow> 'o list \<times> 's" where
  "dynamic_decode step finished initial_state maximum_iterations =
     dynamic_decode_loop step finished maximum_iterations 0 initial_state []"

fun run_decode ::
  "('f decoder_cell \<Rightarrow> 's \<Rightarrow> 'o \<times> 's) \<Rightarrow> ('f decoder_cell \<Rightarrow> 's \<Rightarrow> bool) \<Rightarrow>
   ('f decoder_cell \<Rightarrow> 's) \<Rightarrow> 'f unroll \<Rightarrow> ('o list \<times> 's) option" where
  "run_decode cell_step cell_finished cell_init (DynamicDecode cell n) =
     Some (dynamic_decode (cell_step cell) (cell_finished cell) (cell_init cell) n)"
| "run_decode cell_step cell_finished cell_init (TfDynamicRnn cell inputs) = None"
| "run_decode cell_step cell_finished cell_init (DynamicRnn cell inputs) = None"

section \<open>Configuration errors\<close>

text \<open>
  The spec asks that a malformed configuration be rejected "with a descriptive
  configuration error". This predicate follows those words: an error describes the
  configuration when it names the configuration entry at fault. Of the exceptions a
  call can raise, KeyError carries the key that \<^verbatim>\<open>attn_cell_config\<close> lacks; the others
  name a variable of the program or of the graph.
\<close>

fun configuration_error :: "error \<Rightarrow> bool" where
  "configuration_error (KeyError k) = True"
| "configuration_error (NameError n) = False"
| "configuration_error (UnboundLocalError n) = False"
| "configuration_error (ValueError n) = False"

section \<open>A reference configuration\<close>

text \<open>
  The configuration of the end-to-end scenarios: a vocabulary of 10 tokens with end
  token 9, formulas of at most 5 tokens, beams of size 3 without diversity penalty.
\<close>

definition scenario_config :: "string \<Rightarrow> bool \<Rightarrow> int config" where
  "scenario_config mode bso =
     \<lparr> decoding = mode, beam_size = 3, div_gamma = 0, div_prob = 0,
       max_length_formula = 5, beam_search_optimization = bso,
       attn_cell_config = map_of [(''dim_embeddings'', PyInt 80), (''dim_e'', PyInt 512),
                                  (''num_units'', PyInt 512)] \<rparr>"

definition scenario_decoder :: "string \<Rightarrow> bool \<Rightarrow> int decoder" where
  "scenario_decoder mode bso = Decoder_init (scenario_config mode bso) 10 9"

section \<open>What a call builds and returns\<close>

lemma load_global_id_end: "load_global ''id_end'' = Inl (NameError ''id_end'')"
  by (simp add: load_global_def module_globals_def)

lemma d_config_init: "d_config (Decoder_init config n_tok id_end) = config"
  by (simp add: Decoder_init_def)

lemma scenario_attn_cfg:
  "attn_cell_config (scenario_config mode bso) ''dim_e'' = Some (PyInt 512)"
  "attn_cell_config (scenario_config mode bso) ''num_units'' = Some (PyInt 512)"
  "attn_cell_config (scenario_config mode bso) ''dim_embeddings'' = Some (PyInt 80)"
  by (simp_all add: scenario_config_def)

lemma scenario_fields:
  "decoding (scenario_config mode bso) = mode"
  "beam_size (scenario_config mode bso) = 3"
  "max_length_formula (scenario_config mode bso) = 5"
  "beam_search_optimization (scenario_config mode bso) = bso"
  by (simp_all add: scenario_config_def)

lemma train_cell_Inr:
  "train_cell self img dropout = Inr tc \<Longrightarrow>
   \<exists>dim_e num_units.
     attn_cell_config (d_config self) ''dim_e'' = Some dim_e \<and>
     attn_cell_config (d_config self) ''num_units'' = Some num_units \<and>
     tc = \<lparr> ac_scope = \<lparr> scope_name = ''attn_cell'', scope_reuse = False \<rparr>,
            ac_recu_cell = LSTMCell num_units None,
            ac_attn_meca = \<lparr> am_img = img, am_dim_e = dim_e, am_tiles = None \<rparr>,
            ac_dropout = dropout, ac_config = attn_cell_config (d_config self),
            ac_n_tok = d_n_tok self \<rparr>"
  by (auto simp add: train_cell_def dict_item_def Let_def split: option.splits)

lemma decode_cell_Inr:
  "decode_cell self img dropout = Inr dc \<Longrightarrow>
   \<exists>dim_e num_units.
     attn_cell_config (d_config self) ''dim_e'' = Some dim_e \<and>
     attn_cell_config (d_config self) ''num_units'' = Some num_units \<and>
     dc = \<lparr> ac_scope = \<lparr> scope_name = ''attn_cell'', scope_reuse = True \<rparr>,
            ac_recu_cell = LSTMCell num_units (Some True),
            ac_attn_meca = \<lparr> am_img = img, am_dim_e = dim_e, am_tiles = Some (d_tiles self) \<rparr>,
            ac_dropout = dropout, ac_config = attn_cell_config (d_config self),
            ac_n_tok = d_n_tok self \<rparr>"
  by (auto simp add: decode_cell_def dict_item_def Let_def split: option.splits)

lemma scenario_train_cell:
  "train_cell (scenario_decoder mode bso) img dropout =
     Inr \<lparr> ac_scope = \<lparr> scope_name = ''attn_cell'', scope_reuse = False \<rparr>,
           ac_recu_cell = LSTMCell (PyInt 512) None,
           ac_attn_meca = \<lparr> am_img = img, am_dim_e = PyInt 512, am_tiles = None \<rparr>,
           ac_dropout = dropout, ac_config = attn_cell_config (scenario_config mode bso),
           ac_n_tok = 10 \<rparr>"
  by (simp add: train_cell_def scenario_decoder_def dict_item_def d_config_init
      scenario_attn_cfg Decoder_init_def)

lemma scenario_decode_cell:
  "decode_cell (scenario_decoder mode bso) img dropout =
     Inr \<lparr> ac_scope = \<lparr> scope_name = ''attn_cell'', scope_reuse = True \<rparr>,
           ac_recu_cell = LSTMCell (PyInt 512) (Some True),
           ac_attn_meca = \<lparr> am_img = img, am_dim_e = PyInt 512,
                            am_tiles = Some (if mode = ''greedy'' then 1 else 3) \<rparr>,
           ac_dropout = dropout, ac_config = attn_cell_config (scenario_config mode bso),
           ac_n_tok = 10 \<rparr>"
  by (simp add: decode_cell_def scenario_decoder_def dict_item_def d_config_init
      scenario_attn_cfg scenario_fields Decoder_init_def)

lemma scenario_decoder_config: "d_config (scenario_decoder mode bso) = scenario_config mode bso"
  by (simp add: scenario_decoder_def d_config_init)

lemma d_n_tok_init: "d_n_tok (Decoder_init config n_tok id_end) = n_tok"
  by (simp add: Decoder_init_def)

text \<open>The two variables are created exactly when their shapes are valid.\<close>

lemma get_variable_E:
  "get_variable ''E'' embedding_initializer [PyInt n, dim] =
     (if 0 \<le> n \<and> valid_dimension dim then Inr (Variable ''E'' [PyInt n, dim] EmbeddingInitializer)
      else Inl (ValueError ''E''))"
  by (simp add: get_variable_def embedding_initializer_def)

lemma get_variable_start_token:
  "get_variable ''start_token'' embedding_initializer [dim] =
     (if valid_dimension dim then Inr (Variable ''start_token'' [dim] EmbeddingInitializer)
      else Inl (ValueError ''start_token''))"
  by (simp add: get_variable_def embedding_initializer_def)

text \<open>What a call returns, mode by mode.\<close>

lemma call_greedy:
  "decoding (d_config self) = ''greedy'' \<Longrightarrow>
   Decoder_call self training img formula dropout =
     Inl (if \<not> (0 \<le> d_n_tok self \<and>
                 valid_dimension (dict_get (attn_cell_config (d_config self)) ''dim_embeddings''))
          then ValueError ''E''
          else if attn_cell_config (d_config self) ''dim_e'' = None then KeyError ''dim_e''
          else if attn_cell_config (d_config self) ''num_units'' = None
          then KeyError ''num_units'' else NameError ''id_end'')"
  by (auto simp add: Decoder_call_def Decoder_run_def get_variable_E get_variable_start_token
      train_cell_def decode_cell_def select_decoder_cell_def
      dict_item_def load_global_id_end Let_def split: option.splits)

lemma call_other:
  "decoding (d_config self) \<noteq> ''greedy'' \<Longrightarrow> decoding (d_config self) \<noteq> ''beam_search'' \<Longrightarrow>
   Decoder_call self training img formula dropout =
     Inl (if \<not> (0 \<le> d_n_tok self \<and>
                 valid_dimension (dict_get (attn_cell_config (d_config self)) ''dim_embeddings''))
          then ValueError ''E''
          else if attn_cell_config (d_config self) ''dim_e'' = None then KeyError ''dim_e''
          else if attn_cell_config (d_config self) ''num_units'' = None
          then KeyError ''num_units'' else UnboundLocalError ''decoder_cell'')"
  by (auto simp add: Decoder_call_def Decoder_run_def get_variable_E get_variable_start_token
      train_cell_def decode_cell_def select_decoder_cell_def
      decode_unroll_def load_local_def dict_item_def Let_def split: option.splits)

lemma call_Inr_beam:
  assumes "Decoder_call self training img formula dropout = Inr out"
  shows "decoding (d_config self) = ''beam_search''"
proof (rule ccontr)
  assume n: "decoding (d_config self) \<noteq> ''beam_search''"
  show False
  proof (cases "decoding (d_config self) = ''greedy''")
    case True
    from call_greedy [OF True] assms show False by simp
  next
    case False
    from call_other [OF False n] assms show False by simp
  qed
qed

text \<open>
  What a run has built once the variables and both attention cells exist, whatever the
  decoding mode.
\<close>

lemma run_cells:
  assumes "0 \<le> d_n_tok self"
    and "valid_dimension (dict_get (attn_cell_config (d_config self)) ''dim_embeddings'')"
    and "train_cell self img dropout = Inr tc"
    and "decode_cell self img dropout = Inr dc"
  shows "built_train_cell (snd (Decoder_run self training img formula dropout)) = Some tc \<and>
         built_decode_cell (snd (Decoder_run self training img formula dropout)) = Some dc \<and>
         ''train'' \<in> dom (built_output (snd (Decoder_run self training img formula dropout)))"
  using assms
  by (auto simp add: Decoder_run_def get_variable_E get_variable_start_token
      select_decoder_cell_def decode_unroll_def load_local_def load_global_id_end
      nothing_built_def Let_def split: option.splits)

lemma run_other_no_pred:
  assumes "decoding (d_config self) \<noteq> ''greedy''" and "decoding (d_config self) \<noteq> ''beam_search''"
  shows "built_output (snd (Decoder_run self training img formula dropout)) ''pred'' = None"
  using assms
  by (auto simp add: Decoder_run_def get_variable_E get_variable_start_token
      select_decoder_cell_def decode_unroll_def load_local_def
      nothing_built_def Let_def split: sum.splits)

lemma call_beam_returns:
  assumes "decoding (d_config self) = ''beam_search''"
    and "0 \<le> d_n_tok self"
    and "valid_dimension (dict_get (attn_cell_config (d_config self)) ''dim_embeddings'')"
    and "attn_cell_config (d_config self) ''dim_e'' = Some dim_e"
    and "attn_cell_config (d_config self) ''num_units'' = Some num_units"
  shows "\<exists>out. Decoder_call self training img formula dropout = Inr out"
  using assms
  by (simp add: Decoder_call_def Decoder_run_def get_variable_E get_variable_start_token
      train_cell_def decode_cell_def dict_item_def
      select_decoder_cell_def decode_unroll_def load_local_def Let_def)

lemma scenario_call_beam:
  "\<exists>out. Decoder_call (scenario_decoder ''beam_search'' bso) training img formula dropout = Inr out"
  by (rule call_beam_returns)
    (simp_all add: scenario_decoder_def d_config_init d_n_tok_init scenario_fields
      scenario_attn_cfg dict_get_def)

lemma call_flag_greedy:
  "decoding (d_config self) = ''greedy'' \<Longrightarrow>
   Decoder_call (self \<lparr> d_config := (d_config self) \<lparr> beam_search_optimization := b \<rparr> \<rparr>)
       training img formula dropout =
     Decoder_call self training img formula dropout"
  by (simp add: call_greedy)

lemma call_beam_dom:
  assumes "Decoder_call self training img formula dropout = Inr out"
  shows "dom out = (if beam_search_optimization (d_config self)
                    then {''train'', ''bso'', ''pred''} else {''train'', ''pred''})"
proof -
  have b: "decoding (d_config self) = ''beam_search''" using assms by (rule call_Inr_beam)
  show ?thesis using assms b
    by (auto simp add: Decoder_call_def Decoder_run_def nothing_built_def
        select_decoder_cell_def decode_unroll_def
        load_local_def Let_def split: sum.splits if_splits)
qed

lemma call_beam_pred:
  assumes "Decoder_call self training img formula dropout = Inr out"
  shows "\<exists>cell. out ''pred'' = Some (DynamicDecode cell (max_length_formula (d_config self) + 1))"
proof -
  have b: "decoding (d_config self) = ''beam_search''" using assms by (rule call_Inr_beam)
  show ?thesis using assms b
    by (auto simp add: Decoder_call_def Decoder_run_def nothing_built_def
        select_decoder_cell_def decode_unroll_def
        load_local_def Let_def split: sum.splits if_splits)
qed

lemma bso_in_out:
  assumes "Decoder_call self training img formula dropout = Inr out"
  shows "(''bso'' \<in> dom out) =
         (decoding (d_config self) = ''beam_search'' \<and> beam_search_optimization (d_config self))"
proof -
  have b: "decoding (d_config self) = ''beam_search''" using assms by (rule call_Inr_beam)
  from call_beam_dom [OF assms] b show ?thesis
    by (simp split: if_splits)
qed

lemma train_pred_in_out:
  assumes "Decoder_call self training img formula dropout = Inr out"
  shows "''train'' \<in> dom out \<and> ''pred'' \<in> dom out"
  using call_beam_dom [OF assms] by (simp split: if_splits)

text \<open>The adaptive driver never collects more outputs than its cap allows.\<close>

lemma dynamic_decode_loop_length:
  "length (fst (dynamic_decode_loop step finished m t s outputs))
     \<le> length outputs + nat (m - t)"
proof (induction step finished m t s outputs rule: dynamic_decode_loop.induct)
  case (1 step finished m t s outputs)
  show ?case
  proof (cases "t < m \<and> \<not> finished s")
    case True
    with 1 have "length (fst (dynamic_decode_loop step finished m (t + 1) (snd (step s))
        (outputs @ [fst (step s)]))) \<le> length (outputs @ [fst (step s)]) + nat (m - (t + 1))"
      by simp
    moreover from True have "nat (m - (t + 1)) + 1 = nat (m - t)" by arith
    ultimately show ?thesis using True by (subst dynamic_decode_loop.simps) simp
  next
    case False
    then show ?thesis by (subst dynamic_decode_loop.simps) auto
  qed
qed

lemma dynamic_decode_length:
  "0 \<le> n \<Longrightarrow> int (length (fst (dynamic_decode step finished s0 n))) \<le> n"
  using dynamic_decode_loop_length [of step finished n 0 s0 "[]"]
  by (simp add: dynamic_decode_def)

section \<open>Values of the embedding graph\<close>

text \<open>How the operations behave on the arrays that occur when the embeddings are run.\<close>

lemma those_map_Some:
  "(\<And>x. x \<in> set xs \<Longrightarrow> f x = Some (g x)) \<Longrightarrow> those (map f xs) = Some (map g xs)"
  by (induction xs) simp_all

lemma those_Some_id: "those (map Some xs) = Some xs"
  using those_map_Some [of xs Some "\<lambda>x. x"] by simp

lemma lookup_row:
  assumes "\<And>i. i \<in> set row \<Longrightarrow> 0 \<le> i \<and> i < int (length vecs)"
  shows "embedding_lookup (map Arr vecs) (Arr (map IntV row)) =
           Some (Arr (map (\<lambda>i. Arr (vecs ! nat i)) row))"
proof -
  have "those (map (embedding_lookup (map Arr vecs)) (map IntV row)) =
          Some (map (\<lambda>i. Arr (vecs ! nat i)) row)"
    unfolding map_map
  proof (rule those_map_Some)
    fix i assume "i \<in> set row"
    with assms have "0 \<le> i \<and> i < int (length vecs)" by blast
    then have "0 \<le> i" and "i < int (length vecs)" and "nat i < length vecs" by arith+
    then show "(embedding_lookup (map Arr vecs) \<circ> IntV) i = Some (Arr (vecs ! nat i))"
      by simp
  qed
  then show ?thesis by simp
qed

lemma lookup_formula:
  assumes "\<And>row i. row \<in> set F \<Longrightarrow> i \<in> set row \<Longrightarrow> 0 \<le> i \<and> i < int (length vecs)"
  shows "embedding_lookup (map Arr vecs) (Arr (map (\<lambda>row. Arr (map IntV row)) F)) =
           Some (Arr (map (\<lambda>row. Arr (map (\<lambda>i. Arr (vecs ! nat i)) row)) F))"
proof -
  have "those (map (embedding_lookup (map Arr vecs)) (map (\<lambda>row. Arr (map IntV row)) F)) =
          Some (map (\<lambda>row. Arr (map (\<lambda>i. Arr (vecs ! nat i)) row)) F)"
    unfolding map_map
  proof (rule those_map_Some)
    fix row assume "row \<in> set F"
    with assms have "\<And>i. i \<in> set row \<Longrightarrow> 0 \<le> i \<and> i < int (length vecs)" by blast
    then show "(embedding_lookup (map Arr vecs) \<circ> (\<lambda>row. Arr (map IntV row))) row =
        Some (Arr (map (\<lambda>i. Arr (vecs ! nat i)) row))"
      unfolding comp_def by (rule lookup_row)
  qed
  then show ?thesis by simp
qed

lemma flatten_vector: "flatten (Arr (map FloatV fs)) = map FloatV fs"
  by (induction fs) simp_all

lemma chunks_single: "length xs = n \<Longrightarrow> map hd (chunks n (Suc 0) xs) = xs"
proof (induction n arbitrary: xs)
  case 0
  then show ?case by simp
next
  case (Suc n)
  then obtain y ys where "xs = y # ys" by (cases xs) auto
  with Suc show ?case by simp
qed

lemma build_start: "build [Suc 0, Suc 0, length xs] xs = Arr [Arr [Arr xs]]"
proof -
  have "map (build []) (chunks (length xs) (Suc 0) xs) = xs"
    using chunks_single [of xs "length xs"] by (simp add: comp_def cong: map_cong)
  then show ?thesis by simp
qed

lemma reshape_start:
  "reshape (Arr (map FloatV fs)) [1, 1, int (length fs)] = Some (Arr [Arr [Arr (map FloatV fs)]])"
  using build_start [of "map FloatV fs"]
  by (simp add: reshape_def flatten_vector del: flatten.simps build.simps)

lemma concat_replicate_single: "concat (replicate n [x]) = replicate n x"
  by (induction n) simp_all

lemma tile_start:
  "tile (Arr [Arr [Arr v]]) [int B, 1, 1] = Some (Arr (replicate B (Arr [Arr v])))"
  by (simp add: those_Some_id concat_replicate_single)


lemma those_map_map:
  "(\<And>x. x \<in> set xs \<Longrightarrow> f (h x) = Some (g x)) \<Longrightarrow> those (map f (map h xs)) = Some (map g xs)"
  by (induction xs) simp_all

lemma py_slice_all: "py_slice (Sl None None) xs = xs"
  by (simp add: py_slice_def)

lemma py_slice_butlast: "py_slice (Sl None (Some (- 1))) xs = butlast xs"
proof -
  have "nat (max 0 (int (length xs) - 1)) = length xs - 1" by arith
  then show ?thesis by (simp add: py_slice_def py_index_def butlast_conv_take)
qed

lemma slice_val_all:
  "those (map (slice_val ss) xs) = Some ys \<Longrightarrow>
   slice_val (Sl None None # ss) (Arr xs) = Some (Arr ys)"
  by (simp add: py_slice_all)

lemma slice_val_butlast:
  "those (map (slice_val ss) (butlast xs)) = Some ys \<Longrightarrow>
   slice_val (Sl None (Some (- 1)) # ss) (Arr xs) = Some (Arr ys)"
  by (simp add: py_slice_butlast)

lemma slice_all_1: "slice_val [Sl None None] (Arr xs) = Some (Arr xs)"
proof (rule slice_val_all)
  show "those (map (slice_val []) xs) = Some xs"
    using those_map_Some [of xs "slice_val []" "\<lambda>x. x"] by simp
qed

lemma slice_all_2:
  "slice_val [Sl None None, Sl None None] (Arr (map (\<lambda>x. Arr (g x)) xs)) =
     Some (Arr (map (\<lambda>x. Arr (g x)) xs))"
  by (rule slice_val_all, rule those_map_map) (rule slice_all_1)

lemma slice_all_3:
  "slice_val [Sl None None, Sl None None, Sl None None]
       (Arr (map (\<lambda>row. Arr (map (\<lambda>i. Arr (h i)) (g row))) F)) =
     Some (Arr (map (\<lambda>row. Arr (map (\<lambda>i. Arr (h i)) (g row))) F))"
  by (rule slice_val_all, rule those_map_map) (rule slice_all_2)

lemma map2_replicate: "map2 (#) (replicate (length F) x) (map h F) = map (\<lambda>r. x # h r) F"
  by (induction F) simp_all

lemma concat_axis1_start:
  "concat_axis (Suc 0) [Arr (replicate (length F) (Arr [s])), Arr (map (\<lambda>row. Arr (g row)) F)] =
     Some (Arr (map (\<lambda>row. Arr (s # g row)) F))"
proof -
  have z: "zip_rows [replicate (length F) (Arr [s]), map (\<lambda>row. Arr (g row)) F] =
             Some (map (\<lambda>row. [Arr [s], Arr (g row)]) F)"
    using map2_replicate [of F "Arr [s]" "\<lambda>row. [Arr (g row)]"] by (simp add: comp_def)
  have t: "those (map (concat_axis 0) (map (\<lambda>row. [Arr [s], Arr (g row)]) F)) =
             Some (map (\<lambda>row. Arr (s # g row)) F)"
    by (rule those_map_map) simp
  show ?thesis using t by (simp add: z del: zip_rows.simps)
qed


lemma run_get_embeddings:
  assumes formula: "run env formula = Some (Arr (map (\<lambda>row. Arr (map IntV row)) F))"
    and E: "run env E = Some (Arr (map Arr vecs))"
    and start: "run env start_token = Some (Arr (map FloatV fs))"
    and batch: "run env batch_size = Some (IntV (int (length F)))"
    and ids: "\<And>row i. row \<in> set F \<Longrightarrow> i \<in> set row \<Longrightarrow> 0 \<le> i \<and> i < int (length vecs)"
  shows "run env (get_embeddings formula E (PyInt (int (length fs))) start_token batch_size) =
           Some (Arr (map (\<lambda>row. Arr (map Arr (map FloatV fs # map (\<lambda>i. vecs ! nat i) row))) F))"
proof -
  have lookup: "run env (EmbeddingLookup E formula) =
      Some (Arr (map (\<lambda>row. Arr (map (\<lambda>i. Arr (vecs ! nat i)) row)) F))"
    using lookup_formula [of F vecs] ids by (simp add: formula E)
  have sliced: "run env (Slice (EmbeddingLookup E formula)
        [Sl None None, Sl None None, Sl None None]) =
      Some (Arr (map (\<lambda>row. Arr (map (\<lambda>i. Arr (vecs ! nat i)) row)) F))"
    using slice_all_3 [of "\<lambda>i. vecs ! nat i" "\<lambda>row. row" F]
    by (simp add: lookup del: slice_val.simps run.simps(5))
  have reshaped: "run env (Reshape start_token
        [Constant (PyInt 1), Constant (PyInt 1), Constant (PyInt (int (length fs)))]) =
      Some (Arr [Arr [Arr (map FloatV fs)]])"
    using reshape_start [of fs] by (simp add: start)
  have tiled: "run env (Tile (Reshape start_token
        [Constant (PyInt 1), Constant (PyInt 1), Constant (PyInt (int (length fs)))])
        [batch_size, Constant (PyInt 1), Constant (PyInt 1)]) =
      Some (Arr (replicate (length F) (Arr [Arr (map FloatV fs)])))"
    using tile_start [of "map FloatV fs" "length F"]
    by (simp add: reshaped batch del: run.simps(6) tile.simps)
  show ?thesis
    unfolding get_embeddings_def Let_def
    using concat_axis1_start [of F "Arr (map FloatV fs)" "\<lambda>row. map (\<lambda>i. Arr (vecs ! nat i)) row"]
    by (simp add: tiled sliced comp_def del: run.simps(5,6,7,9) concat_axis.simps)
qed


lemma slice_butlast_rows:
  "slice_val [Sl None None, Sl None (Some (- 1)), Sl None None]
       (Arr (map (\<lambda>row. Arr (map Arr (g row))) F)) =
     Some (Arr (map (\<lambda>row. Arr (map Arr (butlast (g row)))) F))"
proof (rule slice_val_all, rule those_map_map)
  fix row
  show "slice_val [Sl None (Some (- 1)), Sl None None] (Arr (map Arr (g row))) =
          Some (Arr (map Arr (butlast (g row))))"
  proof (rule slice_val_butlast)
    show "those (map (slice_val [Sl None None]) (butlast (map Arr (g row)))) =
            Some (map Arr (butlast (g row)))"
      unfolding map_butlast [symmetric] by (rule those_map_map) (rule slice_all_1)
  qed
qed

lemma butlast_take_Cons: "butlast (x # xs) = take (length xs) (x # xs)"
  using butlast_conv_take [of "x # xs"] by simp

lemma run_train_inputs:
  assumes "run env embeddings = Some (Arr (map (\<lambda>row. Arr (map Arr (x # map h row))) F))"
  shows "run env (train_inputs embeddings) =
           Some (Arr (map (\<lambda>row. Arr (map Arr (take (length row) (x # map h row)))) F))"
  using slice_butlast_rows [of "\<lambda>row. x # map h row" F]
  by (simp add: train_inputs_def assms butlast_take_Cons del: slice_val.simps butlast.simps)

lemma length_rnn_unroll: "length (rnn_unroll step s xs) = length xs"
  by (induction xs arbitrary: s) (simp_all split: prod.splits)

lemma set_rnn_unroll:
  "(\<And>s x. P (fst (step s x))) \<Longrightarrow> y \<in> set (rnn_unroll step s xs) \<Longrightarrow> P y"
proof (induction xs arbitrary: s)
  case Nil
  then show ?case by simp
next
  case (Cons x xs)
  obtain z s' where st: "step s x = (z, s')" by (cases "step s x")
  with Cons.prems(2) have "y = z \<or> y \<in> set (rnn_unroll step s' xs)" by simp
  then show ?case
  proof
    assume "y = z"
    with st Cons.prems(1) [of s x] show ?thesis by simp
  next
    assume "y \<in> set (rnn_unroll step s' xs)"
    with Cons.IH Cons.prems(1) show ?thesis by blast
  qed
qed

lemma tf_dynamic_rnn_rows:
  "tf_dynamic_rnn step init (Arr (map (\<lambda>row. Arr (map Arr (g row))) F)) =
     Some (map (\<lambda>(b, row). rnn_unroll (step b) (init b) (map Arr (g row)))
             (zip [0 ..< length F] F))"
proof -
  have t: "those (map un_arr (map (\<lambda>row. Arr (map Arr (g row))) F)) =
             Some (map (\<lambda>row. map Arr (g row)) F)"
    by (rule those_map_map) simp
  have z: "zip [0 ..< length F] (map (\<lambda>row. map Arr (g row)) F) =
             map (\<lambda>(b, row). (b, map Arr (g row))) (zip [0 ..< length F] F)"
    by (simp add: zip_map2)
  show ?thesis using t
    by (simp add: tf_dynamic_rnn_def z comp_def case_prod_unfold)
qed

section \<open>Greedy decoding\<close>

text \<open>
  C1. The claim is that, with \<^verbatim>\<open>decoding = "greedy"\<close>, the call succeeds and builds a
  GreedyDecoderCell from the embedding table, the attention cell, the batch size, the
  start token and the decoder's \<^verbatim>\<open>id_end\<close>. The code does not: the greedy branch reads
  the bare name \<^verbatim>\<open>id_end\<close>, which is bound nowhere, where the beam-search branch reads
  \<^verbatim>\<open>self._id_end\<close>. No greedy call returns; when the two variables can be created and
  \<^verbatim>\<open>dim_e\<close> and \<^verbatim>\<open>num_units\<close> are configured, so that the call reaches the branch,
  it raises NameError.
\<close>

theorem greedy_call_raises_name_error:
  assumes "decoding config = ''greedy''"
  shows "(\<exists>e. Decoder_call (Decoder_init config n_tok id_end) training img formula dropout = Inl e) \<and>
         (0 \<le> n_tok \<longrightarrow>
          valid_dimension (dict_get (attn_cell_config config) ''dim_embeddings'') \<longrightarrow>
          attn_cell_config config ''dim_e'' \<noteq> None \<longrightarrow>
          attn_cell_config config ''num_units'' \<noteq> None \<longrightarrow>
          Decoder_call (Decoder_init config n_tok id_end) training img formula dropout =
            Inl (NameError ''id_end''))"
  using call_greedy [of "Decoder_init config n_tok id_end" training img formula dropout] assms
  by (simp add: d_config_init d_n_tok_init)

text \<open>The greedy end-to-end scenario is such a call.\<close>

theorem greedy_call_raises_name_error_witness:
  "Decoder_call (Decoder_init (scenario_config ''greedy'' False) 10 9)
     (Placeholder ''training'') (Placeholder ''img'') (Placeholder ''formula'')
     (Placeholder ''dropout'') = Inl (NameError ''id_end'')"
  using greedy_call_raises_name_error [of "scenario_config ''greedy'' False" 10 9
      "Placeholder ''training''" "Placeholder ''img''" "Placeholder ''formula''"
      "Placeholder ''dropout''"]
  by (simp add: scenario_fields scenario_attn_cfg dict_get_def)

section \<open>Unknown decoding modes\<close>

text \<open>
  C2. The claim is that a decoding mode other than \<^verbatim>\<open>"greedy"\<close> and \<^verbatim>\<open>"beam_search"\<close>
  is rejected with a descriptive configuration error. As amended: every such call fails
  while the graph is built, by raising an exception, which need not be a descriptive
  configuration error.
\<close>

theorem unknown_mode_call_fails:
  "decoding config \<noteq> ''greedy'' \<Longrightarrow> decoding config \<noteq> ''beam_search'' \<Longrightarrow>
   \<exists>e. Decoder_call (Decoder_init config n_tok id_end) training img formula dropout = Inl e"
  using call_other [of "Decoder_init config n_tok id_end" training img formula dropout]
  by (simp add: d_config_init)

text \<open>An instance: the scenario configuration with the mode \<^verbatim>\<open>"top_k"\<close>.\<close>

theorem unknown_mode_call_fails_witness:
  "\<exists>e. Decoder_call (Decoder_init (scenario_config ''top_k'' True) 10 9)
     (Placeholder ''training'') (Placeholder ''img'') (Placeholder ''formula'')
     (Placeholder ''dropout'') = Inl e"
  using unknown_mode_call_fails [of "scenario_config ''top_k'' True" 10 9
      "Placeholder ''training''" "Placeholder ''img''" "Placeholder ''formula''"
      "Placeholder ''dropout''"]
  by (simp add: scenario_fields)

text \<open>
  The claim as stated fails for the mode \<^verbatim>\<open>"sampling"\<close>: the error raised names a
  local variable, not the configuration.
\<close>

theorem unknown_mode_error_counterexample:
  "Decoder_call (Decoder_init (scenario_config ''sampling'' False) 10 9)
     (Placeholder ''training'') (Placeholder ''img'') (Placeholder ''formula'')
     (Placeholder ''dropout'') = Inl (UnboundLocalError ''decoder_cell'') \<and>
   \<not> configuration_error (UnboundLocalError ''decoder_cell'')"
  by (simp add: call_other d_config_init d_n_tok_init scenario_fields scenario_attn_cfg
      dict_get_def)

section \<open>The recurrent cell\<close>

text \<open>
  C3. The claim is that the base recurrent cell is a GRU or an LSTM as
  \<^verbatim>\<open>attn_cell_config\<close> selects. As amended: whenever the two attention cells are built,
  their recurrent cell is an LSTMCell of the configured \<^verbatim>\<open>num_units\<close> (built with
  \<^verbatim>\<open>reuse=True\<close> for decoding), whatever else \<^verbatim>\<open>attn_cell_config\<close> contains.
\<close>

theorem recurrent_cell_always_lstm:
  assumes "train_cell self img dropout = Inr tc"
    and "decode_cell self img dropout = Inr dc"
  shows "\<exists>num_units. attn_cell_config (d_config self) ''num_units'' = Some num_units \<and>
           ac_recu_cell tc = LSTMCell num_units None \<and>
           ac_recu_cell dc = LSTMCell num_units (Some True)"
proof -
  from train_cell_Inr [OF assms(1)] obtain n1 where
    n1: "attn_cell_config (d_config self) ''num_units'' = Some n1"
    and tc: "ac_recu_cell tc = LSTMCell n1 None" by auto
  from decode_cell_Inr [OF assms(2)] obtain n2 where
    n2: "attn_cell_config (d_config self) ''num_units'' = Some n2"
    and dc: "ac_recu_cell dc = LSTMCell n2 (Some True)" by auto
  from n1 n2 have "n1 = n2" by simp
  with n1 tc dc show ?thesis by simp
qed

text \<open>An instance: the cells of the scenario configuration.\<close>

theorem recurrent_cell_always_lstm_witness:
  "\<exists>num_units. attn_cell_config (scenario_config ''greedy'' False) ''num_units'' = Some num_units \<and>
     LSTMCell (PyInt 512) None = LSTMCell num_units None \<and>
     LSTMCell (PyInt 512) (Some True) = LSTMCell num_units (Some True)"
  using recurrent_cell_always_lstm
      [OF scenario_train_cell [of "''greedy''" False "Placeholder ''img''" "Placeholder ''dropout''"]
          scenario_decode_cell [of "''greedy''" False "Placeholder ''img''" "Placeholder ''dropout''"]]
  by (simp add: scenario_decoder_config)

text \<open>
  The claim as stated fails for a configuration that asks for a GRU (under the key
  \<^verbatim>\<open>cell_type\<close>): both cells still hold an LSTMCell.
\<close>

theorem gru_config_builds_lstm_counterexample:
  "attn_cell_config ((scenario_config ''beam_search'' False)
       \<lparr> attn_cell_config := (attn_cell_config (scenario_config ''beam_search'' False))
                               (''cell_type'' \<mapsto> PyStr ''gru'') \<rparr>) ''cell_type''
     = Some (PyStr ''gru'') \<and>
   map_sum id ac_recu_cell
     (train_cell (Decoder_init ((scenario_config ''beam_search'' False)
       \<lparr> attn_cell_config := (attn_cell_config (scenario_config ''beam_search'' False))
                               (''cell_type'' \<mapsto> PyStr ''gru'') \<rparr>) 10 9)
        (Placeholder ''img'') (Placeholder ''dropout''))
     = Inr (LSTMCell (PyInt 512) None) \<and>
   map_sum id ac_recu_cell
     (decode_cell (Decoder_init ((scenario_config ''beam_search'' False)
       \<lparr> attn_cell_config := (attn_cell_config (scenario_config ''beam_search'' False))
                               (''cell_type'' \<mapsto> PyStr ''gru'') \<rparr>) 10 9)
        (Placeholder ''img'') (Placeholder ''dropout''))
     = Inr (LSTMCell (PyInt 512) (Some True))"
  by (simp add: train_cell_def decode_cell_def dict_item_def d_config_init scenario_attn_cfg)

section \<open>Tiling of the attention mechanism\<close>

text \<open>
  C6. For every configuration under which the call gets as far as the attention cells
  (the two variables can be created, \<^verbatim>\<open>dim_e\<close> and \<^verbatim>\<open>num_units\<close> are configured), the
  call builds both cells, in every decoding mode: the attention mechanism of the
  training unroll without a tiling factor, the one of the decode unroll with tiling
  factor 1 when the mode is \<^verbatim>\<open>"greedy"\<close> and with \<^verbatim>\<open>beam_size\<close> when it is
  \<^verbatim>\<open>"beam_search"\<close>.
\<close>

theorem attention_tiles:
  assumes "0 \<le> n_tok"
    and "valid_dimension (dict_get (attn_cell_config config) ''dim_embeddings'')"
    and "attn_cell_config config ''dim_e'' = Some dim_e"
    and "attn_cell_config config ''num_units'' = Some num_units"
  shows "\<exists>tc dc.
           train_cell (Decoder_init config n_tok id_end) img dropout = Inr tc \<and>
           decode_cell (Decoder_init config n_tok id_end) img dropout = Inr dc \<and>
           built_train_cell (snd (Decoder_run (Decoder_init config n_tok id_end)
                                    training img formula dropout)) = Some tc \<and>
           built_decode_cell (snd (Decoder_run (Decoder_init config n_tok id_end)
                                     training img formula dropout)) = Some dc \<and>
           am_tiles (ac_attn_meca tc) = None \<and>
           (decoding config = ''greedy'' \<longrightarrow> am_tiles (ac_attn_meca dc) = Some 1) \<and>
           (decoding config = ''beam_search'' \<longrightarrow>
              am_tiles (ac_attn_meca dc) = Some (beam_size config))"
proof -
  let ?self = "Decoder_init config n_tok id_end"
  let ?tc = "\<lparr> ac_scope = \<lparr> scope_name = ''attn_cell'', scope_reuse = False \<rparr>,
               ac_recu_cell = LSTMCell num_units None,
               ac_attn_meca = \<lparr> am_img = img, am_dim_e = dim_e, am_tiles = None \<rparr>,
               ac_dropout = dropout, ac_config = attn_cell_config config,
               ac_n_tok = n_tok \<rparr>"
  let ?dc = "\<lparr> ac_scope = \<lparr> scope_name = ''attn_cell'', scope_reuse = True \<rparr>,
               ac_recu_cell = LSTMCell num_units (Some True),
               ac_attn_meca = \<lparr> am_img = img, am_dim_e = dim_e,
                 am_tiles = Some (if decoding config = ''greedy'' then 1 else beam_size config) \<rparr>,
               ac_dropout = dropout, ac_config = attn_cell_config config,
               ac_n_tok = n_tok \<rparr>"
  have tc: "train_cell ?self img dropout = Inr ?tc"
    using assms(3,4) by (simp add: train_cell_def dict_item_def Decoder_init_def)
  have dc: "decode_cell ?self img dropout = Inr ?dc"
    using assms(3,4) by (simp add: decode_cell_def dict_item_def Decoder_init_def)
  have n: "0 \<le> d_n_tok ?self" using assms(1) by (simp add: d_n_tok_init)
  have d: "valid_dimension (dict_get (attn_cell_config (d_config ?self)) ''dim_embeddings'')"
    using assms(2) by (simp add: d_config_init)
  from run_cells [OF n d tc dc, of training formula]
  have "built_train_cell (snd (Decoder_run ?self training img formula dropout)) = Some ?tc"
    and "built_decode_cell (snd (Decoder_run ?self training img formula dropout)) = Some ?dc"
    by blast+
  with tc dc show ?thesis by (intro exI [of _ ?tc] exI [of _ ?dc]) simp
qed

text \<open>
  An instance for each of the two modes: what the call of the greedy scenario and the
  call of the beam-search scenario have built.
\<close>

theorem attention_tiles_witness:
  "map_option (\<lambda>cell. am_tiles (ac_attn_meca cell))
     (built_train_cell (snd (Decoder_run (Decoder_init (scenario_config ''greedy'' False) 10 9)
        (Placeholder ''training'') (Placeholder ''img'') (Placeholder ''formula'')
        (Placeholder ''dropout'')))) = Some None \<and>
   map_option (\<lambda>cell. am_tiles (ac_attn_meca cell))
     (built_decode_cell (snd (Decoder_run (Decoder_init (scenario_config ''greedy'' False) 10 9)
        (Placeholder ''training'') (Placeholder ''img'') (Placeholder ''formula'')
        (Placeholder ''dropout'')))) = Some (Some 1) \<and>
   map_option (\<lambda>cell. am_tiles (ac_attn_meca cell))
     (built_train_cell (snd (Decoder_run (Decoder_init (scenario_config ''beam_search'' False) 10 9)
        (Placeholder ''training'') (Placeholder ''img'') (Placeholder ''formula'')
        (Placeholder ''dropout'')))) = Some None \<and>
   map_option (\<lambda>cell. am_tiles (ac_attn_meca cell))
     (built_decode_cell (snd (Decoder_run (Decoder_init (scenario_config ''beam_search'' False) 10 9)
        (Placeholder ''training'') (Placeholder ''img'') (Placeholder ''formula'')
        (Placeholder ''dropout'')))) = Some (Some 3)"
proof -
  have n: "(0::int) \<le> 10" by simp
  have d: "valid_dimension (dict_get (attn_cell_config (scenario_config mode False))
             ''dim_embeddings'')" for mode
    by (simp add: scenario_attn_cfg dict_get_def)
  from attention_tiles [OF n d scenario_attn_cfg(1) scenario_attn_cfg(2),
      of "''greedy''" 9 "Placeholder ''img''" "Placeholder ''dropout''"
         "Placeholder ''training''" "Placeholder ''formula''"]
    attention_tiles [OF n d scenario_attn_cfg(1) scenario_attn_cfg(2),
      of "''beam_search''" 9 "Placeholder ''img''" "Placeholder ''dropout''"
         "Placeholder ''training''" "Placeholder ''formula''"]
  show ?thesis by (auto simp add: scenario_fields)
qed

section \<open>The step cap of decoding\<close>

text \<open>
  C5. Whenever a call returns, its \<^verbatim>\<open>"pred"\<close> output is the adaptive unroll of the
  decoder cell with cap \<^verbatim>\<open>max_length_formula+1\<close>, and, for a cap that is not negative,
  running it with any cell (any step function, any completion test, any initial state)
  ends after at most \<^verbatim>\<open>max_length_formula+1\<close> applications of the cell, each of which
  contributes one output, also when the completion test never holds.
\<close>

theorem decode_steps_bounded:
  assumes "Decoder_call self training img formula dropout = Inr out"
    and "0 \<le> max_length_formula (d_config self) + 1"
  shows "\<exists>node outputs s. out ''pred'' = Some node \<and>
           run_decode cell_step cell_finished cell_init node = Some (outputs, s) \<and>
           int (length outputs) \<le> max_length_formula (d_config self) + 1"
proof -
  from call_beam_pred [OF assms(1)] obtain cell where
    pred: "out ''pred'' = Some (DynamicDecode cell (max_length_formula (d_config self) + 1))"
    by blast
  let ?r = "dynamic_decode (cell_step cell) (cell_finished cell) (cell_init cell)
              (max_length_formula (d_config self) + 1)"
  have "run_decode cell_step cell_finished cell_init
          (DynamicDecode cell (max_length_formula (d_config self) + 1)) = Some (fst ?r, snd ?r)"
    by simp
  moreover have "int (length (fst ?r)) \<le> max_length_formula (d_config self) + 1"
    using assms(2) by (rule dynamic_decode_length)
  ultimately show ?thesis using pred by blast
qed

text \<open>
  An instance: the beam-search scenario with a cell that counts its steps and never
  finishes.
\<close>

theorem decode_steps_bounded_witness:
  "(case Decoder_call (scenario_decoder ''beam_search'' False) (Placeholder ''training'')
           (Placeholder ''img'') (Placeholder ''formula'') (Placeholder ''dropout'') of
      Inl e \<Rightarrow> False
    | Inr out \<Rightarrow>
        (case out ''pred'' of
           None \<Rightarrow> False
         | Some node \<Rightarrow>
             (case run_decode (\<lambda>cell s. (s, Suc s)) (\<lambda>cell s. False) (\<lambda>cell. 0) node of
                None \<Rightarrow> False
              | Some (outputs, s) \<Rightarrow> int (length outputs) \<le> 6)))"
proof -
  obtain out where out: "Decoder_call (scenario_decoder ''beam_search'' False)
      (Placeholder ''training'') (Placeholder ''img'') (Placeholder ''formula'')
      (Placeholder ''dropout'') = Inr out"
    using scenario_call_beam by blast
  have cap: "0 \<le> max_length_formula (d_config (scenario_decoder ''beam_search'' False)) + 1"
    by (simp add: scenario_decoder_config scenario_fields)
  from decode_steps_bounded [OF out cap, of "\<lambda>cell s. (s, Suc s)" "\<lambda>cell s. False" "\<lambda>cell. 0"]
  obtain node outputs s where "out ''pred'' = Some node"
    and "run_decode (\<lambda>cell s. (s, Suc s)) (\<lambda>cell s. False) (\<lambda>cell. 0) node = Some (outputs, s)"
    and "int (length outputs) \<le> 6"
    by (auto simp add: scenario_decoder_config scenario_fields)
  then show ?thesis unfolding out by simp
qed

section \<open>The outputs of a call\<close>

text \<open>
  C9. A returned \<^verbatim>\<open>decoder_output\<close> has the entry \<^verbatim>\<open>"bso"\<close> exactly when the mode is
  \<^verbatim>\<open>"beam_search"\<close> and \<^verbatim>\<open>beam_search_optimization\<close> is set; in the mode \<^verbatim>\<open>"greedy"\<close>
  the flag is not looked at, so the call does the same whatever the flag is.
\<close>

theorem bso_output_iff:
  "(Decoder_call self training img formula dropout = Inr out \<longrightarrow>
      (''bso'' \<in> dom out) =
      (decoding (d_config self) = ''beam_search'' \<and> beam_search_optimization (d_config self))) \<and>
   (decoding (d_config self) = ''greedy'' \<longrightarrow>
      Decoder_call (self \<lparr> d_config := (d_config self) \<lparr> beam_search_optimization := b \<rparr> \<rparr>)
          training img formula dropout =
        Decoder_call self training img formula dropout)"
  using bso_in_out call_flag_greedy by blast

text \<open>
  An instance: the beam-search scenario with the flag set, and the greedy scenario with
  the flag changed.
\<close>

theorem bso_output_iff_witness:
  "(case Decoder_call (scenario_decoder ''beam_search'' True) (Placeholder ''training'')
           (Placeholder ''img'') (Placeholder ''formula'') (Placeholder ''dropout'') of
      Inl e \<Rightarrow> False
    | Inr out \<Rightarrow> ''bso'' \<in> dom out) \<and>
   Decoder_call ((scenario_decoder ''greedy'' False)
         \<lparr> d_config := (d_config (scenario_decoder ''greedy'' False))
                         \<lparr> beam_search_optimization := True \<rparr> \<rparr>)
       (Placeholder ''training'') (Placeholder ''img'') (Placeholder ''formula'')
       (Placeholder ''dropout'') =
     Decoder_call (scenario_decoder ''greedy'' False) (Placeholder ''training'')
       (Placeholder ''img'') (Placeholder ''formula'') (Placeholder ''dropout'')"
proof -
  obtain out where out: "Decoder_call (scenario_decoder ''beam_search'' True)
      (Placeholder ''training'') (Placeholder ''img'') (Placeholder ''formula'')
      (Placeholder ''dropout'') = Inr out"
    using scenario_call_beam by blast
  have g: "decoding (d_config (scenario_decoder ''greedy'' False)) = ''greedy''"
    by (simp add: scenario_decoder_config scenario_fields)
  from bso_output_iff [of "scenario_decoder ''beam_search'' True" "Placeholder ''training''"
      "Placeholder ''img''" "Placeholder ''formula''" "Placeholder ''dropout''" out True] out
  have "''bso'' \<in> dom out" by (simp add: scenario_decoder_config scenario_fields)
  moreover from bso_output_iff [of "scenario_decoder ''greedy'' False" "Placeholder ''training''"
      "Placeholder ''img''" "Placeholder ''formula''" "Placeholder ''dropout''" out True] g
  have "Decoder_call ((scenario_decoder ''greedy'' False)
         \<lparr> d_config := (d_config (scenario_decoder ''greedy'' False))
                         \<lparr> beam_search_optimization := True \<rparr> \<rparr>)
       (Placeholder ''training'') (Placeholder ''img'') (Placeholder ''formula'')
       (Placeholder ''dropout'') =
     Decoder_call (scenario_decoder ''greedy'' False) (Placeholder ''training'')
       (Placeholder ''img'') (Placeholder ''formula'') (Placeholder ''dropout'')"
    by blast
  ultimately show ?thesis using out by simp
qed

text \<open>
  C10. The claim is that the call does not depend on the argument \<^verbatim>\<open>training\<close> and
  that both the entry \<^verbatim>\<open>"train"\<close> and the entry \<^verbatim>\<open>"pred"\<close> are built in every call.
  As amended: the call builds the same objects and returns the same output, or raises
  the same exception, whatever \<^verbatim>\<open>training\<close> is; every \<^verbatim>\<open>decoder_output\<close> that is
  returned has both entries, and a beam-search call returns one whenever the two
  variables can be created and \<^verbatim>\<open>dim_e\<close> and \<^verbatim>\<open>num_units\<close> are configured; a call
  with an unknown decoding mode builds no \<^verbatim>\<open>"pred"\<close> entry.
\<close>

theorem call_ignores_training:
  "Decoder_run self training img formula dropout =
     Decoder_run self training' img formula dropout \<and>
   Decoder_call self training img formula dropout =
     Decoder_call self training' img formula dropout \<and>
   (Decoder_call self training img formula dropout = Inr out \<longrightarrow>
      ''train'' \<in> dom out \<and> ''pred'' \<in> dom out) \<and>
   (decoding (d_config self) = ''beam_search'' \<longrightarrow>
    0 \<le> d_n_tok self \<longrightarrow>
    valid_dimension (dict_get (attn_cell_config (d_config self)) ''dim_embeddings'') \<longrightarrow>
    attn_cell_config (d_config self) ''dim_e'' \<noteq> None \<longrightarrow>
    attn_cell_config (d_config self) ''num_units'' \<noteq> None \<longrightarrow>
      (\<exists>out'. Decoder_call self training img formula dropout = Inr out' \<and>
              ''train'' \<in> dom out' \<and> ''pred'' \<in> dom out')) \<and>
   (decoding (d_config self) \<noteq> ''greedy'' \<longrightarrow> decoding (d_config self) \<noteq> ''beam_search'' \<longrightarrow>
      built_output (snd (Decoder_run self training img formula dropout)) ''pred'' = None)"
proof -
  have run: "Decoder_run self training img formula dropout =
               Decoder_run self training' img formula dropout"
    by (simp add: Decoder_run_def)
  then have call: "Decoder_call self training img formula dropout =
                     Decoder_call self training' img formula dropout"
    by (simp add: Decoder_call_def)
  have beam: "\<exists>out'. Decoder_call self training img formula dropout = Inr out' \<and>
                ''train'' \<in> dom out' \<and> ''pred'' \<in> dom out'"
    if "decoding (d_config self) = ''beam_search''" and "0 \<le> d_n_tok self"
      and "valid_dimension (dict_get (attn_cell_config (d_config self)) ''dim_embeddings'')"
      and "attn_cell_config (d_config self) ''dim_e'' \<noteq> None"
      and "attn_cell_config (d_config self) ''num_units'' \<noteq> None"
  proof -
    from that(4,5) obtain de nu where "attn_cell_config (d_config self) ''dim_e'' = Some de"
      and "attn_cell_config (d_config self) ''num_units'' = Some nu" by auto
    from call_beam_returns [OF that(1,2,3) this] obtain out' where
      "Decoder_call self training img formula dropout = Inr out'" by blast
    with train_pred_in_out [OF this] show ?thesis by blast
  qed
  from run call beam train_pred_in_out run_other_no_pred show ?thesis by blast
qed

text \<open>
  An instance: the beam-search scenario called with both values of the flag, and the
  scenario with the mode \<^verbatim>\<open>"top_k"\<close>.
\<close>

theorem call_ignores_training_witness:
  "Decoder_call (scenario_decoder ''beam_search'' False) (Constant (PyBool True))
       (Placeholder ''img'') (Placeholder ''formula'') (Placeholder ''dropout'') =
     Decoder_call (scenario_decoder ''beam_search'' False) (Constant (PyBool False))
       (Placeholder ''img'') (Placeholder ''formula'') (Placeholder ''dropout'') \<and>
   (case Decoder_call (scenario_decoder ''beam_search'' False) (Constant (PyBool True))
           (Placeholder ''img'') (Placeholder ''formula'') (Placeholder ''dropout'') of
      Inl e \<Rightarrow> False
    | Inr out \<Rightarrow> ''train'' \<in> dom out \<and> ''pred'' \<in> dom out) \<and>
   built_output (snd (Decoder_run (scenario_decoder ''top_k'' False) (Constant (PyBool True))
       (Placeholder ''img'') (Placeholder ''formula'') (Placeholder ''dropout''))) ''pred'' = None"
proof -
  note beam = call_ignores_training [of "scenario_decoder ''beam_search'' False"
      "Constant (PyBool True)" "Placeholder ''img''" "Placeholder ''formula''"
      "Placeholder ''dropout''" "Constant (PyBool False)"]
  note other = call_ignores_training [of "scenario_decoder ''top_k'' False"
      "Constant (PyBool True)" "Placeholder ''img''" "Placeholder ''formula''"
      "Placeholder ''dropout''" "Constant (PyBool False)"]
  have wf: "decoding (d_config (scenario_decoder ''beam_search'' False)) = ''beam_search''"
    "0 \<le> d_n_tok (scenario_decoder ''beam_search'' False)"
    "valid_dimension (dict_get (attn_cell_config (d_config (scenario_decoder ''beam_search'' False)))
       ''dim_embeddings'')"
    "attn_cell_config (d_config (scenario_decoder ''beam_search'' False)) ''dim_e'' \<noteq> None"
    "attn_cell_config (d_config (scenario_decoder ''beam_search'' False)) ''num_units'' \<noteq> None"
    by (simp_all add: scenario_decoder_def d_config_init d_n_tok_init scenario_fields
        scenario_attn_cfg dict_get_def)
  from beam wf obtain out where out: "Decoder_call (scenario_decoder ''beam_search'' False)
      (Constant (PyBool True)) (Placeholder ''img'') (Placeholder ''formula'')
      (Placeholder ''dropout'') = Inr out"
    and dom: "''train'' \<in> dom out \<and> ''pred'' \<in> dom out"
    by blast
  have mode: "decoding (d_config (scenario_decoder ''top_k'' False)) \<noteq> ''greedy''"
    "decoding (d_config (scenario_decoder ''top_k'' False)) \<noteq> ''beam_search''"
    by (simp_all add: scenario_decoder_config scenario_fields)
  show ?thesis
  proof (intro conjI)
    from beam show "Decoder_call (scenario_decoder ''beam_search'' False) (Constant (PyBool True))
       (Placeholder ''img'') (Placeholder ''formula'') (Placeholder ''dropout'') =
     Decoder_call (scenario_decoder ''beam_search'' False) (Constant (PyBool False))
       (Placeholder ''img'') (Placeholder ''formula'') (Placeholder ''dropout'')" by blast
  next
    show "case Decoder_call (scenario_decoder ''beam_search'' False) (Constant (PyBool True))
           (Placeholder ''img'') (Placeholder ''formula'') (Placeholder ''dropout'') of
      Inl e \<Rightarrow> False
    | Inr out \<Rightarrow> ''train'' \<in> dom out \<and> ''pred'' \<in> dom out"
      unfolding out using dom by simp
  next
    from other mode show "built_output (snd (Decoder_run (scenario_decoder ''top_k'' False)
       (Constant (PyBool True)) (Placeholder ''img'') (Placeholder ''formula'')
       (Placeholder ''dropout''))) ''pred'' = None" by blast
  qed
qed

text \<open>
  The claim as stated fails for the mode \<^verbatim>\<open>"nucleus"\<close>: the call raises with the
  entry \<^verbatim>\<open>"train"\<close> built and the entry \<^verbatim>\<open>"pred"\<close> not.
\<close>

theorem pred_always_built_counterexample:
  "Decoder_call (Decoder_init (scenario_config ''nucleus'' False) 10 9)
     (Placeholder ''training'') (Placeholder ''img'') (Placeholder ''formula'')
     (Placeholder ''dropout'') = Inl (UnboundLocalError ''decoder_cell'') \<and>
   ''train'' \<in> dom (built_output (snd (Decoder_run
      (Decoder_init (scenario_config ''nucleus'' False) 10 9)
      (Placeholder ''training'') (Placeholder ''img'') (Placeholder ''formula'')
      (Placeholder ''dropout'')))) \<and>
   ''pred'' \<notin> dom (built_output (snd (Decoder_run
      (Decoder_init (scenario_config ''nucleus'' False) 10 9)
      (Placeholder ''training'') (Placeholder ''img'') (Placeholder ''formula'')
      (Placeholder ''dropout''))))"
proof -
  let ?self = "Decoder_init (scenario_config ''nucleus'' False) 10 9 :: int decoder"
  have n: "0 \<le> d_n_tok ?self" by (simp add: d_n_tok_init)
  have d: "valid_dimension (dict_get (attn_cell_config (d_config ?self)) ''dim_embeddings'')"
    by (simp add: d_config_init scenario_attn_cfg dict_get_def)
  have m: "decoding (d_config ?self) \<noteq> ''greedy''" "decoding (d_config ?self) \<noteq> ''beam_search''"
    by (simp_all add: d_config_init scenario_fields)
  have call: "Decoder_call ?self (Placeholder ''training'') (Placeholder ''img'')
      (Placeholder ''formula'') (Placeholder ''dropout'') = Inl (UnboundLocalError ''decoder_cell'')"
    using call_other [OF m] n d by (simp add: d_config_init scenario_attn_cfg)
  from run_cells [OF n d scenario_train_cell [unfolded scenario_decoder_def]
      scenario_decode_cell [unfolded scenario_decoder_def]]
  have train: "''train'' \<in> dom (built_output (snd (Decoder_run ?self (Placeholder ''training'')
      (Placeholder ''img'') (Placeholder ''formula'') (Placeholder ''dropout''))))"
    by blast
  from run_other_no_pred [OF m]
  have pred: "''pred'' \<notin> dom (built_output (snd (Decoder_run ?self (Placeholder ''training'')
      (Placeholder ''img'') (Placeholder ''formula'') (Placeholder ''dropout''))))"
    by (simp add: domIff)
  from call train pred show ?thesis by blast
qed

section \<open>Embeddings and the training unroll\<close>

text \<open>
  C7. Run on a batch of formulas of length \<open>T\<close> whose ids are below \<open>n_tok\<close>, with an
  embedding table of \<open>n_tok\<close> rows and as many images as formulas,
  \<^verbatim>\<open>get_embeddings\<close> yields for every formula the start-token vector followed by the
  table rows of its tokens, \<open>T + 1\<close> vectors in all. The training unroll is fed the
  first \<open>T\<close> of them and applies the cell once to each, so that for a cell whose step
  returns \<open>n_tok\<close> logits the training output has shape batch by \<open>T\<close> by \<open>n_tok\<close>.
\<close>

theorem training_unroll_inputs:
  assumes formula: "run env formula = Some (Arr (map (\<lambda>row. Arr (map IntV row)) F))"
    and E: "run env E = Some (Arr (map Arr vecs))"
    and start: "run env start_token = Some (Arr (map FloatV fs))"
    and batch: "run env batch_size = Some (IntV (int (length F)))"
    and vocab: "length vecs = n_tok"
    and ids: "\<forall>row \<in> set F. length row = T \<and> (\<forall>i \<in> set row. 0 \<le> i \<and> i < int n_tok)"
    and logits: "\<forall>b s x. length (fst (cell_step cell b s x)) = n_tok"
  shows "run env (get_embeddings formula E (PyInt (int (length fs))) start_token batch_size) =
           Some (Arr (map (\<lambda>row. Arr (map Arr (map FloatV fs # map (\<lambda>i. vecs ! nat i) row))) F)) \<and>
         (\<exists>outs.
            run_train cell_step cell_init env
              (TfDynamicRnn cell (train_inputs
                 (get_embeddings formula E (PyInt (int (length fs))) start_token batch_size))) =
              Some outs \<and>
            outs = map (\<lambda>(b, row). rnn_unroll (cell_step cell b) (cell_init cell b)
                          (map Arr (take T (map FloatV fs # map (\<lambda>i. vecs ! nat i) row))))
                     (zip [0 ..< length F] F) \<and>
            length outs = length F \<and>
            (\<forall>out \<in> set outs. length out = T \<and> (\<forall>l \<in> set out. length l = n_tok)))"
proof -
  let ?emb = "get_embeddings formula E (PyInt (int (length fs))) start_token batch_size"
  let ?row = "\<lambda>row. map FloatV fs # map (\<lambda>i. vecs ! nat i) row"
  let ?unroll = "\<lambda>(b, row). rnn_unroll (cell_step cell b) (cell_init cell b)
                   (map Arr (take T (?row row)))"
  have in_range: "\<And>row i. row \<in> set F \<Longrightarrow> i \<in> set row \<Longrightarrow> 0 \<le> i \<and> i < int (length vecs)"
    using ids vocab by blast
  have emb: "run env ?emb = Some (Arr (map (\<lambda>row. Arr (map Arr (?row row))) F))"
    using formula E start batch in_range by (rule run_get_embeddings)
  have "run env (train_inputs ?emb) =
          Some (Arr (map (\<lambda>row. Arr (map Arr (take (length row) (?row row)))) F))"
    using emb by (rule run_train_inputs)
  moreover have "map (\<lambda>row. Arr (map Arr (take (length row) (?row row)))) F =
                 map (\<lambda>row. Arr (map Arr (take T (?row row)))) F"
    using ids by (intro map_cong) auto
  ultimately have inputs: "run env (train_inputs ?emb) =
      Some (Arr (map (\<lambda>row. Arr (map Arr (take T (?row row)))) F))"
    by simp
  have outs: "run_train cell_step cell_init env (TfDynamicRnn cell (train_inputs ?emb)) =
      Some (map ?unroll (zip [0 ..< length F] F))"
    using tf_dynamic_rnn_rows [of "cell_step cell" "cell_init cell" "\<lambda>row. take T (?row row)" F]
    by (simp add: inputs)
  have shape: "length out = T \<and> (\<forall>l \<in> set out. length l = n_tok)"
    if "out \<in> set (map ?unroll (zip [0 ..< length F] F))" for out
  proof -
    from that obtain b row where br: "(b, row) \<in> set (zip [0 ..< length F] F)"
      and out: "out = rnn_unroll (cell_step cell b) (cell_init cell b)
                        (map Arr (take T (?row row)))"
      by auto
    from br have "row \<in> set F" by (rule set_zip_rightD)
    with ids have "length row = T" by blast
    then have "length out = T" by (simp add: out length_rnn_unroll)
    moreover have "length l = n_tok" if "l \<in> set out" for l
      using that unfolding out
      by (rule set_rnn_unroll [rotated]) (use logits in simp)
    ultimately show ?thesis by blast
  qed
  have "length (map ?unroll (zip [0 ..< length F] F)) = length F" by simp
  with emb outs shape show ?thesis by blast
qed

text \<open>
  An instance: two formulas of three tokens over a vocabulary of three, with a cell
  that counts its steps.
\<close>

theorem training_unroll_inputs_witness:
  "run (map_of [(''E'', Arr [Arr [FloatV 10, FloatV 11], Arr [FloatV 20, FloatV 21],
                             Arr [FloatV 30, FloatV (31::int)]]),
                (''start_token'', Arr [FloatV 1, FloatV 2]),
                (''formula'', Arr [Arr [IntV 2, IntV 0, IntV 1], Arr [IntV 1, IntV 1, IntV 2]]),
                (''img'', Arr [IntV 0, IntV 0])])
     (get_embeddings (Placeholder ''formula'') (Variable ''E'' [PyInt 3, PyInt 2] EmbeddingInitializer)
        (PyInt 2) (Variable ''start_token'' [PyInt 2] EmbeddingInitializer)
        (Shape0 (Placeholder ''img''))) =
     Some (Arr [Arr [Arr [FloatV 1, FloatV 2], Arr [FloatV 30, FloatV 31],
                     Arr [FloatV 10, FloatV 11], Arr [FloatV 20, FloatV 21]],
                Arr [Arr [FloatV 1, FloatV 2], Arr [FloatV 20, FloatV 21],
                     Arr [FloatV 20, FloatV 21], Arr [FloatV 30, FloatV 31]]]) \<and>
   run_train (\<lambda>cell b s x. (replicate 3 (s + b), Suc s)) (\<lambda>cell b. 0)
     (map_of [(''E'', Arr [Arr [FloatV 10, FloatV 11], Arr [FloatV 20, FloatV 21],
                             Arr [FloatV 30, FloatV (31::int)]]),
                (''start_token'', Arr [FloatV 1, FloatV 2]),
                (''formula'', Arr [Arr [IntV 2, IntV 0, IntV 1], Arr [IntV 1, IntV 1, IntV 2]]),
                (''img'', Arr [IntV 0, IntV 0])])
     (TfDynamicRnn
        \<lparr> ac_scope = \<lparr> scope_name = ''attn_cell'', scope_reuse = False \<rparr>,
          ac_recu_cell = LSTMCell (PyInt 512) None,
          ac_attn_meca = \<lparr> am_img = Placeholder ''img'', am_dim_e = PyInt 512, am_tiles = None \<rparr>,
          ac_dropout = Placeholder ''dropout'', ac_config = Map.empty, ac_n_tok = 3 \<rparr>
        (train_inputs
          (get_embeddings (Placeholder ''formula'')
             (Variable ''E'' [PyInt 3, PyInt 2] EmbeddingInitializer) (PyInt 2)
             (Variable ''start_token'' [PyInt 2] EmbeddingInitializer)
             (Shape0 (Placeholder ''img'')))) :: int unroll) =
     Some [[[0, 0, 0], [1, 1, 1], [2, 2, 2]], [[1, 1, 1], [2, 2, 2], [3, 3, 3]]]"
proof -
  let ?env = "map_of [(''E'', Arr [Arr [FloatV 10, FloatV 11], Arr [FloatV 20, FloatV 21],
                             Arr [FloatV 30, FloatV (31::int)]]),
                (''start_token'', Arr [FloatV 1, FloatV 2]),
                (''formula'', Arr [Arr [IntV 2, IntV 0, IntV 1], Arr [IntV 1, IntV 1, IntV 2]]),
                (''img'', Arr [IntV 0, IntV 0])]"
  let ?cell = "\<lparr> ac_scope = \<lparr> scope_name = ''attn_cell'', scope_reuse = False \<rparr>,
          ac_recu_cell = LSTMCell (PyInt 512) None,
          ac_attn_meca = \<lparr> am_img = Placeholder ''img'', am_dim_e = PyInt 512, am_tiles = None \<rparr>,
          ac_dropout = Placeholder ''dropout'', ac_config = Map.empty, ac_n_tok = 3 \<rparr>"
  have formula: "run ?env (Placeholder ''formula'') =
      Some (Arr (map (\<lambda>row. Arr (map IntV row)) [[2, 0, 1], [1, 1, 2]]))" by simp
  have E: "run ?env (Variable ''E'' [PyInt 3, PyInt 2] EmbeddingInitializer) =
      Some (Arr (map Arr [[FloatV 10, FloatV 11], [FloatV 20, FloatV 21],
                          [FloatV 30, FloatV 31]]))" by simp
  have start: "run ?env (Variable ''start_token'' [PyInt 2] EmbeddingInitializer) =
      Some (Arr (map FloatV [1, 2]))" by simp
  have batch: "run ?env (Shape0 (Placeholder ''img'')) =
      Some (IntV (int (length [[2, 0, 1], [1, 1, 2::int]])))" by simp
  have vocab: "length [[FloatV 10, FloatV 11], [FloatV 20, FloatV 21],
                       [FloatV 30, FloatV (31::int)]] = 3" by simp
  have ids: "\<forall>row \<in> set [[2, 0, 1], [1, 1, 2::int]].
               length row = 3 \<and> (\<forall>i \<in> set row. 0 \<le> i \<and> i < int 3)" by simp
  have logits: "\<forall>b s x. length (fst ((\<lambda>cell b s x. (replicate 3 (s + b), Suc s))
                  ?cell b s (x :: int val))) = 3" by simp
  from training_unroll_inputs [OF formula E start batch vocab ids logits,
      of "\<lambda>cell b. 0"]
  show ?thesis
    by (simp add: upt_conv_Cons numeral_3_eq_3 numeral_2_eq_2 del: run.simps)
qed

end
